theory Spec2Isabelle
  imports Main "HOL-Library.Char_ord" "HOL-Library.List_Lexorder"
begin

section \<open>Data model\<close>

text \<open>
  The \<^verbatim>\<open>Story\<close> interface of \<^verbatim>\<open>useStories.ts\<close>. Identifiers, timestamps and the
  status are JavaScript strings at run time (rows reach the hook through \<^verbatim>\<open>as any\<close>), so
  they are strings here; the literal union \<^verbatim>\<open>'draft' | 'published' | 'archived'\<close> names
  the values the status is meant to take. The counters are whole numbers. A field that is
  \<^verbatim>\<open>null\<close> or missing is \<open>None\<close>. The field \<^verbatim>\<open>id\<close> is called \<open>sid\<close>, since \<open>id\<close> is the
  identity function of HOL.
\<close>

record profile =
  user_id :: string
  display_name :: "string option"
  username :: "string option"

record chapter_info =
  chapter_id :: string
  chapter_title :: string
  chapter_status :: string
  chapter_number :: int

record story =
  sid :: string
  title :: string
  description :: "string option"
  genre :: "string option"
  cover_image_url :: "string option"
  author_id :: string
  status :: string
  view_count :: int
  like_count :: int
  comment_count :: int
  created_at :: string
  updated_at :: string
  profiles :: "profile option"
  story_tags :: "string list option"
  chapters :: "chapter_info list option"

text \<open>
  Modelled from the spec: the element types of the collections that \<^verbatim>\<open>useLibrary\<close> and
  \<^verbatim>\<open>useReads\<close> return are declared in hooks that are not part of the sources. The spec's
  data model gives a library item an identifier, an owning reader, a referenced story
  (denormalised join) and a creation timestamp, and a read-progress entry a story
  identifier, an optional chapter identifier and a numeric progress; the library view
  reads exactly these fields. Progress is a whole percentage here.
\<close>

record library_item =
  item_id :: string
  reader_id :: string
  stories_join :: "story option"
  item_created_at :: string

record read_progress =
  story_id :: string
  chapter_id :: "string option"
  progress :: "int option"

section \<open>Library statistics (\<^verbatim>\<open>getReadingStats\<close>)\<close>

record reading_stats =
  totalSaved :: nat
  currentlyReading :: nat
  completed :: nat
  totalSlides :: int

text \<open>\<^verbatim>\<open>r.progress || 0\<close>: a missing progress, and the falsy number 0, give 0.\<close>

definition progress_or_0 :: "read_progress \<Rightarrow> int" where
  "progress_or_0 r = (case progress r of None \<Rightarrow> 0 | Some p \<Rightarrow> if p = 0 then 0 else p)"

definition getReadingStats :: "library_item list \<Rightarrow> read_progress list \<Rightarrow> reading_stats" where
  "getReadingStats library reads =
     \<lparr> totalSaved = length library,
       currentlyReading = length (filter (\<lambda>r. progress_or_0 r > 0 \<and> progress_or_0 r < 100) reads),
       completed = length (filter (\<lambda>r. progress_or_0 r \<ge> 100) reads),
       totalSlides = foldl (\<lambda>sum r. sum + progress_or_0 r) 0 reads \<rparr>"

text \<open>The progress a read counts with when the field may be missing.\<close>

definition progress_value :: "read_progress \<Rightarrow> int" where
  "progress_value r = (case progress r of None \<Rightarrow> 0 | Some p \<Rightarrow> p)"

section \<open>The remote store\<close>

text \<open>
  The hook reaches the store through the query client of \<^verbatim>\<open>@/integrations/supabase/client\<close>,
  an external service. Every call of the client resolves to an object \<^verbatim>\<open>{ data, error }\<close>
  (the hook tests \<^verbatim>\<open>error\<close> after each call it checks); the client does not reject, and
  a call that fails answers with the error and \<^verbatim>\<open>data\<close> null, and changes nothing. The
  store is taken as a parameter of the hook: three tables, the error (if any) that each
  kind of call answers with, and the identifier and timestamp it gives the next inserted
  row.
\<close>

datatype err = ErrorInstance string | PlainError string

text \<open>
  A thrown or returned error value: an instance of \<^verbatim>\<open>Error\<close> with its message, or any
  other value (such as a plain object with a \<^verbatim>\<open>message\<close> field).
  \<^verbatim>\<open>err instanceof Error ? err.message : fallback\<close> is \<open>error_text\<close>.
\<close>

definition error_text :: "err \<Rightarrow> string \<Rightarrow> string" where
  "error_text e fallback = (case e of ErrorInstance m \<Rightarrow> m | PlainError _ \<Rightarrow> fallback)"

record 'a response =
  resp_data :: "'a option"
  resp_error :: "err option"

text \<open>\<^verbatim>\<open>Partial<Story>\<close>, over the columns of the table: a field that is absent is \<open>None\<close>.\<close>

record story_patch =
  p_sid :: "string option"
  p_title :: "string option"
  p_description :: "string option option"
  p_genre :: "string option option"
  p_cover_image_url :: "string option option"
  p_author_id :: "string option"
  p_status :: "string option"
  p_view_count :: "int option"
  p_like_count :: "int option"
  p_comment_count :: "int option"
  p_created_at :: "string option"
  p_updated_at :: "string option"

definition no_updates :: story_patch where
  "no_updates = \<lparr> p_sid = None, p_title = None, p_description = None, p_genre = None,
     p_cover_image_url = None, p_author_id = None, p_status = None, p_view_count = None,
     p_like_count = None, p_comment_count = None, p_created_at = None, p_updated_at = None \<rparr>"

definition apply_patch :: "story_patch \<Rightarrow> story \<Rightarrow> story" where
  "apply_patch p s = s
     \<lparr> sid := (case p_sid p of None \<Rightarrow> sid s | Some v \<Rightarrow> v),
       title := (case p_title p of None \<Rightarrow> title s | Some v \<Rightarrow> v),
       description := (case p_description p of None \<Rightarrow> description s | Some v \<Rightarrow> v),
       genre := (case p_genre p of None \<Rightarrow> genre s | Some v \<Rightarrow> v),
       cover_image_url := (case p_cover_image_url p of None \<Rightarrow> cover_image_url s | Some v \<Rightarrow> v),
       author_id := (case p_author_id p of None \<Rightarrow> author_id s | Some v \<Rightarrow> v),
       status := (case p_status p of None \<Rightarrow> status s | Some v \<Rightarrow> v),
       view_count := (case p_view_count p of None \<Rightarrow> view_count s | Some v \<Rightarrow> v),
       like_count := (case p_like_count p of None \<Rightarrow> like_count s | Some v \<Rightarrow> v),
       comment_count := (case p_comment_count p of None \<Rightarrow> comment_count s | Some v \<Rightarrow> v),
       created_at := (case p_created_at p of None \<Rightarrow> created_at s | Some v \<Rightarrow> v),
       updated_at := (case p_updated_at p of None \<Rightarrow> updated_at s | Some v \<Rightarrow> v) \<rparr>"

text \<open>The object \<^verbatim>\<open>createStory\<close> inserts (lines 86-93).\<close>

record story_insert =
  ins_title :: string
  ins_description :: string
  ins_genre :: string
  ins_author_id :: string
  ins_cover_image_url :: "string option"
  ins_status :: string

datatype remote_call =
    SelectStories string
  | SelectProfiles "string list"
  | InsertStory story_insert
  | InsertStoryTags "(string \<times> string) list"
  | UpdateStory string story_patch
  | DeleteStory string

datatype remote_op =
  OpSelectStories | OpSelectProfiles | OpInsertStory | OpInsertStoryTags | OpUpdateStory | OpDeleteStory

record backend =
  stories_tbl :: "story list"
  profiles_tbl :: "profile list"
  story_tags_tbl :: "(string \<times> string) list"
  faults :: "remote_op \<Rightarrow> err option"
  new_id :: string
  clock :: string

text \<open>A row of the table has the columns only: the joined fields are not stored.\<close>

definition columns_only :: "story \<Rightarrow> story" where
  "columns_only s = s\<lparr> profiles := None, story_tags := None, chapters := None \<rparr>"

text \<open>
  \<^verbatim>\<open>from('stories').select('*').eq('status', v).order('created_at', { ascending: false })\<close>
\<close>

definition select_stories :: "string \<Rightarrow> backend \<Rightarrow> story list response \<times> backend" where
  "select_stories v b =
     (case faults b OpSelectStories of
        Some e \<Rightarrow> (\<lparr> resp_data = None, resp_error = Some e \<rparr>, b)
      | None \<Rightarrow>
          (\<lparr> resp_data = Some (rev (sort_key created_at
                 (filter (\<lambda>s. status s = v) (map columns_only (stories_tbl b))))),
             resp_error = None \<rparr>, b))"

text \<open>\<^verbatim>\<open>from('profiles').select('user_id, display_name, username').in('user_id', ids)\<close>\<close>

definition select_profiles :: "string list \<Rightarrow> backend \<Rightarrow> profile list response \<times> backend" where
  "select_profiles ids b =
     (case faults b OpSelectProfiles of
        Some e \<Rightarrow> (\<lparr> resp_data = None, resp_error = Some e \<rparr>, b)
      | None \<Rightarrow>
          (\<lparr> resp_data = Some (filter (\<lambda>p. user_id p \<in> set ids) (profiles_tbl b)),
             resp_error = None \<rparr>, b))"

text \<open>
  \<^verbatim>\<open>from('stories').insert(row).select().single()\<close>: the store gives the row its
  identifier, its timestamps and zero counters, and answers with the stored row.
\<close>

definition new_row :: "story_insert \<Rightarrow> backend \<Rightarrow> story" where
  "new_row i b =
     \<lparr> sid = new_id b, title = ins_title i, description = Some (ins_description i),
       genre = Some (ins_genre i), cover_image_url = ins_cover_image_url i,
       author_id = ins_author_id i, status = ins_status i,
       view_count = 0, like_count = 0, comment_count = 0,
       created_at = clock b, updated_at = clock b,
       profiles = None, story_tags = None, chapters = None \<rparr>"

definition insert_story :: "story_insert \<Rightarrow> backend \<Rightarrow> story response \<times> backend" where
  "insert_story i b =
     (case faults b OpInsertStory of
        Some e \<Rightarrow> (\<lparr> resp_data = None, resp_error = Some e \<rparr>, b)
      | None \<Rightarrow>
          (\<lparr> resp_data = Some (new_row i b), resp_error = None \<rparr>,
           b\<lparr> stories_tbl := stories_tbl b @ [new_row i b] \<rparr>))"

text \<open>\<^verbatim>\<open>from('story_tags').insert(rows)\<close>, rows of \<^verbatim>\<open>(story_id, tag)\<close>.\<close>

definition insert_story_tags ::
  "(string \<times> string) list \<Rightarrow> backend \<Rightarrow> unit response \<times> backend" where
  "insert_story_tags rows b =
     (case faults b OpInsertStoryTags of
        Some e \<Rightarrow> (\<lparr> resp_data = None, resp_error = Some e \<rparr>, b)
      | None \<Rightarrow>
          (\<lparr> resp_data = None, resp_error = None \<rparr>,
           b\<lparr> story_tags_tbl := story_tags_tbl b @ rows \<rparr>))"

text \<open>\<^verbatim>\<open>from('stories').update(updates).eq('id', i)\<close>\<close>

definition update_story :: "string \<Rightarrow> story_patch \<Rightarrow> backend \<Rightarrow> unit response \<times> backend" where
  "update_story i p b =
     (case faults b OpUpdateStory of
        Some e \<Rightarrow> (\<lparr> resp_data = None, resp_error = Some e \<rparr>, b)
      | None \<Rightarrow>
          (\<lparr> resp_data = None, resp_error = None \<rparr>,
           b\<lparr> stories_tbl := map (\<lambda>s. if sid s = i then apply_patch p s else s) (stories_tbl b) \<rparr>))"

text \<open>\<^verbatim>\<open>from('stories').delete().eq('id', i)\<close>\<close>

definition delete_story :: "string \<Rightarrow> backend \<Rightarrow> unit response \<times> backend" where
  "delete_story i b =
     (case faults b OpDeleteStory of
        Some e \<Rightarrow> (\<lparr> resp_data = None, resp_error = Some e \<rparr>, b)
      | None \<Rightarrow>
          (\<lparr> resp_data = None, resp_error = None \<rparr>,
           b\<lparr> stories_tbl := filter (\<lambda>s. sid s \<noteq> i) (stories_tbl b) \<rparr>))"

section \<open>The hook \<^verbatim>\<open>useStories\<close>\<close>

text \<open>
  The state of the hook (\<^verbatim>\<open>stories\<close>, \<^verbatim>\<open>loading\<close>, \<^verbatim>\<open>error\<close>), the store it talks to, and
  the trace of what has been done so far, in order: remote calls, state writes, console
  warnings and notifications. An asynchronous operation is run to completion, one after
  the other, as the spec's resource model has it.
\<close>

datatype event =
    Remote remote_call
  | SetLoading bool
  | SetError string
  | SetStories "story list"
  | ConsoleWarn err
  | ToastSuccess string
  | ToastError string

record world =
  remote :: backend
  stories :: "story list"
  loading :: bool
  error :: "string option"
  trace :: "event list"

text \<open>\<^verbatim>\<open>useState<Story[]>([])\<close>, \<^verbatim>\<open>useState(true)\<close>, \<^verbatim>\<open>useState<string | null>(null)\<close>\<close>

definition initial_world :: "backend \<Rightarrow> world" where
  "initial_world b = \<lparr> remote = b, stories = [], loading = True, error = None, trace = [] \<rparr>"

definition setLoading :: "bool \<Rightarrow> world \<Rightarrow> world" where
  "setLoading v w = w\<lparr> loading := v, trace := trace w @ [SetLoading v] \<rparr>"

definition setError :: "string \<Rightarrow> world \<Rightarrow> world" where
  "setError m w = w\<lparr> error := Some m, trace := trace w @ [SetError m] \<rparr>"

definition setStories :: "story list \<Rightarrow> world \<Rightarrow> world" where
  "setStories v w = w\<lparr> stories := v, trace := trace w @ [SetStories v] \<rparr>"

definition consoleWarn :: "err \<Rightarrow> world \<Rightarrow> world" where
  "consoleWarn e w = w\<lparr> trace := trace w @ [ConsoleWarn e] \<rparr>"

definition toast_success :: "string \<Rightarrow> world \<Rightarrow> world" where
  "toast_success m w = w\<lparr> trace := trace w @ [ToastSuccess m] \<rparr>"

definition toast_error :: "string \<Rightarrow> world \<Rightarrow> world" where
  "toast_error m w = w\<lparr> trace := trace w @ [ToastError m] \<rparr>"

text \<open>One awaited call of the client: the call is recorded, the store answers.\<close>

definition await :: "remote_call \<Rightarrow> (backend \<Rightarrow> 'a response \<times> backend) \<Rightarrow> world \<Rightarrow> 'a response \<times> world" where
  "await c f w =
     (let (r, b) = f (remote w) in (r, w\<lparr> remote := b, trace := trace w @ [Remote c] \<rparr>))"

text \<open>
  The merge of lines 59-65: \<^verbatim>\<open>profilesData?.find(p => p.user_id === story.author_id)\<close>,
  then \<^verbatim>\<open>profile || null\<close>.
\<close>

definition merge_profile :: "profile list option \<Rightarrow> story \<Rightarrow> story" where
  "merge_profile profilesData story =
     story\<lparr> profiles :=
       (case profilesData of
          None \<Rightarrow> None
        | Some ps \<Rightarrow> find (\<lambda>p. user_id p = author_id story) ps) \<rparr>"

definition fetchStories :: "world \<Rightarrow> world" where
  "fetchStories w0 =
     (let w1 = setLoading True w0;
          (r1, w2) = await (SelectStories ''published'') (select_stories ''published'') w1
      in case resp_error r1 of
           Some storiesError \<Rightarrow>
             setLoading False (setError (error_text storiesError ''Failed to fetch stories'') w2)
         | None \<Rightarrow>
             (let authorIds = (case resp_data r1 of Some rows \<Rightarrow> map author_id rows | None \<Rightarrow> []);
                  (r2, w3) = await (SelectProfiles authorIds) (select_profiles authorIds) w2;
                  w4 = (case resp_error r2 of Some profilesError \<Rightarrow> consoleWarn profilesError w3
                        | None \<Rightarrow> w3);
                  storiesWithAuthors =
                    (case resp_data r1 of Some rows \<Rightarrow> map (merge_profile (resp_data r2)) rows
                     | None \<Rightarrow> [])
              in setLoading False (setStories storiesWithAuthors w4)))"

text \<open>
  The argument of \<^verbatim>\<open>createStory\<close>; \<^verbatim>\<open>tags\<close> and \<^verbatim>\<open>cover_image_url\<close> are optional.
\<close>

record story_data =
  sd_title :: string
  sd_description :: string
  sd_genre :: string
  sd_author_id :: string
  sd_tags :: "string list option"
  sd_cover_image_url :: "string option"

text \<open>The object \<^verbatim>\<open>createStory\<close> inserts (lines 86-93): the new story is a draft.\<close>

definition insert_of :: "story_data \<Rightarrow> story_insert" where
  "insert_of storyData =
     \<lparr> ins_title = sd_title storyData, ins_description = sd_description storyData,
       ins_genre = sd_genre storyData, ins_author_id = sd_author_id storyData,
       ins_cover_image_url = sd_cover_image_url storyData, ins_status = ''draft'' \<rparr>"

text \<open>
  A mutation returns \<open>Inl e\<close> when it throws \<open>e\<close> to its caller. \<^verbatim>\<open>createStory\<close> returns
  the \<^verbatim>\<open>data\<close> of the insert's answer; reading \<^verbatim>\<open>story.id\<close> of a null answer for the tag
  rows is a \<^verbatim>\<open>TypeError\<close>, caught like every other error. The answer of the tag insert is
  not looked at (line 106).
\<close>

definition createStory :: "story_data \<Rightarrow> world \<Rightarrow> (err + story option) \<times> world" where
  "createStory storyData w0 =
     (let (r, w1) = await (InsertStory (insert_of storyData)) (insert_story (insert_of storyData)) w0;
          caught = (\<lambda>e w. (Inl e, setError (error_text e ''Failed to create story'') w))
      in case resp_error r of
           Some e \<Rightarrow> caught e w1
         | None \<Rightarrow>
             (case sd_tags storyData of
                None \<Rightarrow> (Inr (resp_data r), fetchStories w1)
              | Some tags \<Rightarrow>
                  if length tags > 0 then
                    (case resp_data r of
                       None \<Rightarrow> caught (ErrorInstance ''Cannot read properties of null (reading 'id')'') w1
                     | Some story \<Rightarrow>
                         (let tagInserts = map (\<lambda>tag. (sid story, tag)) tags;
                              (r', w2) = await (InsertStoryTags tagInserts) (insert_story_tags tagInserts) w1
                          in (Inr (resp_data r), fetchStories w2)))
                  else (Inr (resp_data r), fetchStories w1)))"

definition updateStory :: "string \<Rightarrow> story_patch \<Rightarrow> world \<Rightarrow> (err + unit) \<times> world" where
  "updateStory i updates w0 =
     (let (r, w1) = await (UpdateStory i updates) (update_story i updates) w0
      in case resp_error r of
           Some e \<Rightarrow> (Inl e, setError (error_text e ''Failed to update story'') w1)
         | None \<Rightarrow> (Inr (), fetchStories w1))"

definition deleteStory :: "string \<Rightarrow> world \<Rightarrow> (err + unit) \<times> world" where
  "deleteStory i w0 =
     (let (r, w1) = await (DeleteStory i) (delete_story i) w0
      in case resp_error r of
           Some e \<Rightarrow> (Inl e, setError (error_text e ''Failed to delete story'') w1)
         | None \<Rightarrow> (Inr (), fetchStories w1))"

section \<open>The view \<^verbatim>\<open>ManageStories\<close>\<close>

text \<open>
  Modelled from the spec: the user context (\<^verbatim>\<open>@/components/user-context\<close>) is not part of
  the sources. It supplies the current authenticated user's identifier, or its absence;
  the view reads \<^verbatim>\<open>user?.id\<close> only.
\<close>

record auth_user =
  uid :: string

text \<open>\<^verbatim>\<open>s.includes(t)\<close>: \<open>t\<close> occurs in \<open>s\<close> at some position.\<close>

fun starts_with :: "string \<Rightarrow> string \<Rightarrow> bool" where
  "starts_with s [] = True"
| "starts_with [] (c # cs) = False"
| "starts_with (x # xs) (c # cs) = (x = c \<and> starts_with xs cs)"

fun includes_str :: "string \<Rightarrow> string \<Rightarrow> bool" where
  "includes_str [] t = (t = [])"
| "includes_str (x # xs) t = (starts_with (x # xs) t \<or> includes_str xs t)"

text \<open>\<^verbatim>\<open>stories.filter(story => story.author_id === user?.id)\<close>\<close>

definition userStories :: "auth_user option \<Rightarrow> story list \<Rightarrow> story list" where
  "userStories user ss =
     filter (\<lambda>story. case user of None \<Rightarrow> False | Some u \<Rightarrow> author_id story = uid u) ss"

text \<open>
  \<^verbatim>\<open>String.prototype.toLowerCase\<close> is a built-in of the JavaScript runtime, not code of the
  repository, and it folds every cased letter of Unicode: the filter takes it as a
  parameter, with the source's name.
\<close>

definition filteredStories ::
  "(string \<Rightarrow> string) \<Rightarrow> auth_user option \<Rightarrow> story list \<Rightarrow> string \<Rightarrow> string \<Rightarrow> story list" where
  "filteredStories toLowerCase user ss searchQuery filterStatus =
     filter (\<lambda>story.
        let matchesSearch = includes_str (toLowerCase (title story)) (toLowerCase searchQuery);
            matchesFilter = (filterStatus = ''all'' \<or> status story = filterStatus)
        in matchesSearch \<and> matchesFilter)
       (userStories user ss)"

text \<open>The local state of the view (lines 47-50).\<close>

record view_state =
  searchQuery :: string
  filterStatus :: string
  deleteDialogOpen :: bool
  storyToDelete :: "string option"

definition initial_view :: view_state where
  "initial_view = \<lparr> searchQuery = [], filterStatus = ''all'', deleteDialogOpen = False,
     storyToDelete = None \<rparr>"

definition handleDeleteClick :: "string \<Rightarrow> view_state \<Rightarrow> view_state" where
  "handleDeleteClick storyId v = v\<lparr> storyToDelete := Some storyId, deleteDialogOpen := True \<rparr>"

text \<open>
  \<^verbatim>\<open>if (!storyToDelete) return\<close>: \<^verbatim>\<open>null\<close> and the empty string are both falsy.
\<close>

definition confirmDelete :: "view_state \<times> world \<Rightarrow> view_state \<times> world" where
  "confirmDelete vw =
     (let (v, w) = vw in
      case storyToDelete v of
        None \<Rightarrow> (v, w)
      | Some i \<Rightarrow>
          if i = [] then (v, w)
          else
            (let (r, w1) = deleteStory i w;
                 w2 = (case r of
                         Inr _ \<Rightarrow> toast_success ''Story deleted successfully'' w1
                       | Inl _ \<Rightarrow> toast_error ''Failed to delete story'' w1)
             in (v\<lparr> deleteDialogOpen := False, storyToDelete := None \<rparr>, w2)))"

text \<open>\<^verbatim>\<open>onOpenChange={setDeleteDialogOpen}\<close>: the dialog closes on Cancel.\<close>

definition setDeleteDialogOpen :: "bool \<Rightarrow> view_state \<Rightarrow> view_state" where
  "setDeleteDialogOpen v s = s\<lparr> deleteDialogOpen := v \<rparr>"

text \<open>
  The events of the delete flow: the Delete item of a story's menu, the action button of
  the dialog and its Cancel button. Each event runs its handler as written; the dialog
  shows its buttons only while it is open.
\<close>

datatype ui_event = DeleteClick string | Confirm | Cancel

fun step :: "ui_event \<Rightarrow> view_state \<times> world \<Rightarrow> view_state \<times> world" where
  "step (DeleteClick storyId) (v, w) = (handleDeleteClick storyId v, w)"
| "step Confirm (v, w) = confirmDelete (v, w)"
| "step Cancel (v, w) = (setDeleteDialogOpen False v, w)"

fun run :: "ui_event list \<Rightarrow> view_state \<times> world \<Rightarrow> view_state \<times> world" where
  "run [] vw = vw"
| "run (e # es) vw = run es (step e vw)"

text \<open>
  \<^verbatim>\<open>toggleStatus\<close> (lines 93-102): the new status, the update it asks the hook for, and the
  notification.
\<close>

definition newStatus :: "string \<Rightarrow> string" where
  "newStatus currentStatus = (if currentStatus = ''published'' then ''draft'' else ''published'')"

definition toggleStatus :: "string \<Rightarrow> string \<Rightarrow> world \<Rightarrow> world" where
  "toggleStatus storyId currentStatus w =
     (let (r, w1) = updateStory storyId (no_updates\<lparr> p_status := Some (newStatus currentStatus) \<rparr>) w
      in case r of
           Inr _ \<Rightarrow>
             toast_success
               (''Story '' @ (if newStatus currentStatus = ''published'' then ''published'' else ''unpublished'')
                  @ '' successfully'') w1
         | Inl _ \<Rightarrow> toast_error ''Failed to update story status'' w1)"

text \<open>
  Mounting the view. The effect of the hook (line 147 of \<^verbatim>\<open>useStories.ts\<close>) runs
  \<^verbatim>\<open>fetchStories\<close>; the effect of the view (lines 53-55) calls \<^verbatim>\<open>fetchUserStories\<close>, which it
  takes from the object the hook returns. That object (lines 151-159) has one operation
  without arguments, \<^verbatim>\<open>fetchStories\<close>; a name it does not have is \<^verbatim>\<open>undefined\<close>, and calling
  it throws a \<^verbatim>\<open>TypeError\<close>.
\<close>

definition useStories_operations :: "(string \<times> (world \<Rightarrow> world)) list" where
  "useStories_operations = [(''fetchStories'', fetchStories)]"

definition ManageStories_mount :: "world \<Rightarrow> (err + unit) \<times> world" where
  "ManageStories_mount w =
     (let w1 = fetchStories w in
      case map_of useStories_operations ''fetchUserStories'' of
        None \<Rightarrow> (Inl (ErrorInstance ''fetchUserStories is not a function''), w1)
      | Some fetchUserStories \<Rightarrow> (Inr (), fetchUserStories w1))"

section \<open>What the store answers, and what a run of the hook leaves in the trace\<close>

text \<open>
  The answer of the stories query of \<^verbatim>\<open>fetchStories\<close> when the query does not fail: the
  published rows, newest first.
\<close>

definition published_rows :: "backend \<Rightarrow> story list" where
  "published_rows b =
     rev (sort_key created_at (filter (\<lambda>s. status s = ''published'') (map columns_only (stories_tbl b))))"

text \<open>The answer of the profiles query for the authors of those rows.\<close>

definition profiles_answer :: "backend \<Rightarrow> profile list option" where
  "profiles_answer b =
     (case faults b OpSelectProfiles of
        Some e \<Rightarrow> None
      | None \<Rightarrow> Some (filter (\<lambda>p. user_id p \<in> set (map author_id (published_rows b))) (profiles_tbl b)))"

text \<open>
  The remote snapshot, in the spec's words: the published stories of the store, each with
  the profile of its author when the profiles can be read.
\<close>

definition remote_snapshot :: "backend \<Rightarrow> story list" where
  "remote_snapshot b =
     map (\<lambda>s. s\<lparr> profiles :=
            (case faults b OpSelectProfiles of
               Some e \<Rightarrow> None
             | None \<Rightarrow> find (\<lambda>p. user_id p = author_id s) (profiles_tbl b)) \<rparr>)
       (published_rows b)"

text \<open>The events of one run of \<^verbatim>\<open>fetchStories\<close> against a store.\<close>

definition fetch_events :: "backend \<Rightarrow> event list" where
  "fetch_events b =
     (case faults b OpSelectStories of
        Some e \<Rightarrow>
          [SetLoading True, Remote (SelectStories ''published''),
           SetError (error_text e ''Failed to fetch stories''), SetLoading False]
      | None \<Rightarrow>
          [SetLoading True, Remote (SelectStories ''published''),
           Remote (SelectProfiles (map author_id (published_rows b)))]
          @ (case faults b OpSelectProfiles of Some e \<Rightarrow> [ConsoleWarn e] | None \<Rightarrow> [])
          @ [SetStories (map (merge_profile (profiles_answer b)) (published_rows b)),
             SetLoading False])"

text \<open>The tag insert of \<^verbatim>\<open>createStory\<close>, made when tags are given and not empty.\<close>

definition tag_calls :: "story_data \<Rightarrow> backend \<Rightarrow> event list" where
  "tag_calls storyData b =
     (case sd_tags storyData of
        None \<Rightarrow> []
      | Some tags \<Rightarrow>
          if tags = [] then []
          else [Remote (InsertStoryTags (map (\<lambda>tag. (new_id b, tag)) tags))])"

text \<open>The remote deletes and the remote updates of a trace, in order.\<close>

fun remote_deletes :: "event list \<Rightarrow> string list" where
  "remote_deletes [] = []"
| "remote_deletes (Remote (DeleteStory i) # es) = i # remote_deletes es"
| "remote_deletes (e # es) = remote_deletes es"

fun remote_updates :: "event list \<Rightarrow> (string \<times> story_patch) list" where
  "remote_updates [] = []"
| "remote_updates (Remote (UpdateStory i p) # es) = (i, p) # remote_updates es"
| "remote_updates (e # es) = remote_updates es"

section \<open>Containing a string whatever the case of its letters\<close>

text \<open>
  The capital and the small letters of ASCII, pair by pair; two characters are the same
  letter when they are equal or are the capital and the small form of one letter.
\<close>

definition ascii_letters :: "(char \<times> char) list" where
  "ascii_letters = zip ''ABCDEFGHIJKLMNOPQRSTUVWXYZ'' ''abcdefghijklmnopqrstuvwxyz''"

definition same_letter :: "char \<Rightarrow> char \<Rightarrow> bool" where
  "same_letter c d = (c = d \<or> (c, d) \<in> set ascii_letters \<or> (d, c) \<in> set ascii_letters)"

text \<open>
  \<open>t\<close> contains \<open>q\<close> whatever the case: some stretch of \<open>t\<close> is \<open>q\<close>, letter for letter.
\<close>

definition contains_ignoring_case :: "string \<Rightarrow> string \<Rightarrow> bool" where
  "contains_ignoring_case t q = (\<exists>p u r. t = p @ u @ r \<and> list_all2 same_letter u q)"

text \<open>
  What the language standard says of \<^verbatim>\<open>toLowerCase\<close> on ASCII text: every capital becomes
  its small letter and every other character stays. \<open>folds_ascii\<close> holds of a function that
  does so on every ASCII string; beyond ASCII nothing is asked of it.
\<close>

definition ascii_lower :: "char \<Rightarrow> char" where
  "ascii_lower c = (case map_of ascii_letters c of Some l \<Rightarrow> l | None \<Rightarrow> c)"

definition ascii :: "string \<Rightarrow> bool" where
  "ascii s = list_all (\<lambda>c. (of_char c :: nat) < 128) s"

definition folds_ascii :: "(string \<Rightarrow> string) \<Rightarrow> bool" where
  "folds_ascii toLowerCase = (\<forall>s. ascii s \<longrightarrow> toLowerCase s = map ascii_lower s)"

text \<open>\<^verbatim>\<open>story.author_id === user?.id\<close>, as a property of a story.\<close>

definition authored_by :: "auth_user option \<Rightarrow> story \<Rightarrow> bool" where
  "authored_by user s = (\<exists>u. user = Some u \<and> author_id s = uid u)"

section \<open>Example stores\<close>

definition row_of :: "string \<Rightarrow> string \<Rightarrow> string \<Rightarrow> string \<Rightarrow> string \<Rightarrow> story" where
  "row_of i t a st ts =
     \<lparr> sid = i, title = t, description = None, genre = None, cover_image_url = None,
       author_id = a, status = st, view_count = 0, like_count = 0, comment_count = 0,
       created_at = ts, updated_at = ts, profiles = None, story_tags = None, chapters = None \<rparr>"

definition store_of :: "story list \<Rightarrow> profile list \<Rightarrow> (remote_op \<Rightarrow> err option) \<Rightarrow> backend" where
  "store_of ss ps f =
     \<lparr> stories_tbl = ss, profiles_tbl = ps, story_tags_tbl = [], faults = f,
       new_id = ''s9'', clock = ''t9'' \<rparr>"

text \<open>One published story; the hook still shows the error of an earlier fetch.\<close>

definition stale_error_world :: world where
  "stale_error_world =
     (initial_world (store_of [row_of ''s1'' ''One'' ''u1'' ''published'' ''t1''] [] (\<lambda>op. None)))
       \<lparr> error := Some ''Failed to fetch stories'' \<rparr>"

text \<open>One published story; the stories query fails.\<close>

definition refetch_fails_world :: world where
  "refetch_fails_world =
     initial_world (store_of [row_of ''s1'' ''One'' ''u1'' ''published'' ''t1''] []
       ((\<lambda>op. None)(OpSelectStories := Some (PlainError ''network''))))"

text \<open>The same, with the story already in the hook's collection.\<close>

definition stale_collection_world :: world where
  "stale_collection_world =
     refetch_fails_world\<lparr> stories := [row_of ''s1'' ''One'' ''u1'' ''published'' ''t1''] \<rparr>"

text \<open>One published story of \<open>u1\<close> and the profile of \<open>u1\<close>; with and without a failing profiles query.\<close>

definition author_profile :: profile where
  "author_profile = \<lparr> user_id = ''u1'', display_name = Some ''Ann'', username = Some ''ann'' \<rparr>"

definition joined_world :: world where
  "joined_world =
     initial_world (store_of [row_of ''s1'' ''One'' ''u1'' ''published'' ''t1''] [author_profile] (\<lambda>op. None))"

definition profiles_fail_world :: world where
  "profiles_fail_world =
     initial_world (store_of [row_of ''s1'' ''One'' ''u1'' ''published'' ''t1''] [author_profile]
       ((\<lambda>op. None)(OpSelectProfiles := Some (PlainError ''profiles''))))"

text \<open>An empty store whose tag insert fails, and a new story with one tag.\<close>

definition tag_fault_world :: world where
  "tag_fault_world =
     initial_world (store_of [] []
       ((\<lambda>op. None)(OpInsertStoryTags := Some (PlainError ''insert into story_tags failed''))))"

definition tagged_story :: story_data where
  "tagged_story = \<lparr> sd_title = ''One'', sd_description = ''A story'', sd_genre = ''Fantasy'',
     sd_author_id = ''u1'', sd_tags = Some [''magic''], sd_cover_image_url = None \<rparr>"

text \<open>The store holds one draft of user \<open>u1\<close>.\<close>

definition draft_only_world :: world where
  "draft_only_world =
     initial_world (store_of [row_of ''s1'' ''My draft'' ''u1'' ''draft'' ''t1''] [] (\<lambda>op. None))"

section \<open>Properties of the library statistics\<close>

lemma progress_or_0_value: "progress_or_0 r = progress_value r"
  by (simp add: progress_or_0_def progress_value_def split: option.split)

lemma foldl_progress_sum:
  "foldl (\<lambda>sum r. sum + progress_or_0 r) a reads = a + sum_list (map progress_value reads)"
  by (induction reads arbitrary: a) (simp_all add: progress_or_0_value)

text \<open>
  C8. For every library collection and reads collection the statistics are:
  totalSaved, the number of library items; currentlyReading, the number of reads with
  progress strictly between 0 and 100; completed, the number of reads with progress at
  least 100; totalSlides, the sum of the progress of all reads, a missing progress counting
  as 0. The first depends on the library only and the other three on the reads only. For
  a library of one item for story A and one read of story A with progress 45 the
  statistics are 1, 1, 0 and 45.
\<close>

theorem getReadingStats_spec:
  "totalSaved (getReadingStats library reads) = length library
   \<and> currentlyReading (getReadingStats library reads)
       = card {i. i < length reads \<and> 0 < progress_value (reads ! i) \<and> progress_value (reads ! i) < 100}
   \<and> completed (getReadingStats library reads)
       = card {i. i < length reads \<and> 100 \<le> progress_value (reads ! i)}
   \<and> totalSlides (getReadingStats library reads) = sum_list (map progress_value reads)
   \<and> totalSaved (getReadingStats library reads) = totalSaved (getReadingStats library reads')
   \<and> currentlyReading (getReadingStats library reads) = currentlyReading (getReadingStats library' reads)
   \<and> completed (getReadingStats library reads) = completed (getReadingStats library' reads)
   \<and> totalSlides (getReadingStats library reads) = totalSlides (getReadingStats library' reads)
   \<and> getReadingStats
        [\<lparr> item_id = ''l1'', reader_id = ''u1'',
           stories_join = Some (row_of ''A'' ''Story A'' ''u2'' ''published'' ''day 0''),
           item_created_at = ''day 1'' \<rparr>]
        [\<lparr> story_id = ''A'', chapter_id = None, progress = Some 45 \<rparr>]
       = \<lparr> totalSaved = 1, currentlyReading = 1, completed = 0, totalSlides = 45 \<rparr>"
proof -
  have cr: "currentlyReading (getReadingStats library reads)
      = card {i. i < length reads \<and> 0 < progress_value (reads ! i) \<and> progress_value (reads ! i) < 100}"
    by (simp add: getReadingStats_def progress_or_0_value length_filter_conv_card)
  have co: "completed (getReadingStats library reads)
      = card {i. i < length reads \<and> 100 \<le> progress_value (reads ! i)}"
    by (simp add: getReadingStats_def progress_or_0_value length_filter_conv_card)
  have ts: "totalSlides (getReadingStats library reads) = sum_list (map progress_value reads)"
    by (simp add: getReadingStats_def foldl_progress_sum)
  have sc: "getReadingStats
        [\<lparr> item_id = ''l1'', reader_id = ''u1'',
           stories_join = Some (row_of ''A'' ''Story A'' ''u2'' ''published'' ''day 0''),
           item_created_at = ''day 1'' \<rparr>]
        [\<lparr> story_id = ''A'', chapter_id = None, progress = Some 45 \<rparr>]
       = \<lparr> totalSaved = 1, currentlyReading = 1, completed = 0, totalSlides = 45 \<rparr>"
    by (simp add: getReadingStats_def progress_or_0_def)
  show ?thesis
    using cr co ts sc by (simp add: getReadingStats_def)
qed

section \<open>Properties of the filters of the view\<close>

lemma starts_with_iff: "starts_with s t \<longleftrightarrow> (\<exists>q. s = t @ q)"
  by (induction s t rule: starts_with.induct) auto

lemma includes_str_iff: "includes_str s t \<longleftrightarrow> (\<exists>p q. s = p @ t @ q)"
proof (induction s)
  case Nil
  then show ?case by simp
next
  case (Cons x xs)
  show ?case
  proof
    assume "includes_str (x # xs) t"
    then consider "starts_with (x # xs) t" | "includes_str xs t" by auto
    then show "\<exists>p q. x # xs = p @ t @ q"
    proof cases
      case 1
      then obtain q where "x # xs = t @ q" by (auto simp: starts_with_iff)
      then have "x # xs = [] @ t @ q" by simp
      then show ?thesis by blast
    next
      case 2
      then obtain p q where "xs = p @ t @ q" using Cons.IH by blast
      then have "x # xs = (x # p) @ t @ q" by simp
      then show ?thesis by blast
    qed
  next
    assume "\<exists>p q. x # xs = p @ t @ q"
    then obtain p q where pq: "x # xs = p @ t @ q" by blast
    show "includes_str (x # xs) t"
    proof (cases p)
      case Nil
      with pq have "starts_with (x # xs) t" by (auto simp: starts_with_iff)
      then show ?thesis by simp
    next
      case (Cons y ys)
      with pq have "xs = ys @ t @ q" by simp
      then have "includes_str xs t" using Cons.IH by blast
      then show ?thesis by simp
    qed
  qed
qed

lemma fst_letters: "map fst ascii_letters = ''ABCDEFGHIJKLMNOPQRSTUVWXYZ''"
  by (simp add: ascii_letters_def)

lemma snd_letters: "map snd ascii_letters = ''abcdefghijklmnopqrstuvwxyz''"
  by (simp add: ascii_letters_def)

lemma distinct_capitals: "distinct (map fst ascii_letters)"
  unfolding fst_letters by simp

lemma distinct_smalls: "distinct (map snd ascii_letters)"
  unfolding snd_letters by simp

lemma capitals_not_small: "set (map fst ascii_letters) \<inter> set (map snd ascii_letters) = {}"
  unfolding fst_letters snd_letters by simp


lemma capital_lower: "(c, l) \<in> set ascii_letters \<Longrightarrow> ascii_lower c = l"
  by (simp add: ascii_lower_def distinct_capitals)

lemma small_unique:
  "(c, l) \<in> set ascii_letters \<Longrightarrow> (d, l) \<in> set ascii_letters \<Longrightarrow> c = d"
  using distinct_smalls
  by (metis distinct_map inj_onD fst_conv snd_conv eq_key_imp_eq_value distinct_capitals prod.collapse)

lemma small_stays: "(c, l) \<in> set ascii_letters \<Longrightarrow> ascii_lower l = l"
proof -
  assume "(c, l) \<in> set ascii_letters"
  then have "l \<in> set (map snd ascii_letters)" by force
  then have "l \<notin> set (map fst ascii_letters)" using capitals_not_small by blast
  then have "map_of ascii_letters l = None" by (simp add: map_of_eq_None_iff)
  then show ?thesis by (simp add: ascii_lower_def)
qed

lemma no_capital_stays: "c \<notin> fst ` set ascii_letters \<Longrightarrow> ascii_lower c = c"
proof -
  assume "c \<notin> fst ` set ascii_letters"
  then have "map_of ascii_letters c = None" by (simp add: map_of_eq_None_iff)
  then show ?thesis by (simp add: ascii_lower_def)
qed

lemma ascii_lower_same_letter: "ascii_lower c = ascii_lower d \<longleftrightarrow> same_letter c d"
proof
  assume eq: "ascii_lower c = ascii_lower d"
  show "same_letter c d"
  proof (cases "c \<in> fst ` set ascii_letters")
    case True
    then obtain l where cl: "(c, l) \<in> set ascii_letters" by force
    show ?thesis
    proof (cases "d \<in> fst ` set ascii_letters")
      case True
      then obtain m where dm: "(d, m) \<in> set ascii_letters" by force
      from eq cl dm have "l = m" by (simp add: capital_lower)
      with cl dm have "c = d" using small_unique by blast
      then show ?thesis by (simp add: same_letter_def)
    next
      case False
      with eq cl have "l = d" by (simp add: capital_lower no_capital_stays)
      with cl show ?thesis by (simp add: same_letter_def)
    qed
  next
    case False
    show ?thesis
    proof (cases "d \<in> fst ` set ascii_letters")
      case True
      then obtain m where dm: "(d, m) \<in> set ascii_letters" by force
      with eq False have "c = m" by (simp add: capital_lower no_capital_stays)
      with dm show ?thesis by (simp add: same_letter_def)
    next
      case d: False
      with eq False show ?thesis by (simp add: no_capital_stays same_letter_def)
    qed
  qed
next
  assume "same_letter c d"
  then consider "c = d" | "(c, d) \<in> set ascii_letters" | "(d, c) \<in> set ascii_letters"
    by (auto simp: same_letter_def)
  then show "ascii_lower c = ascii_lower d"
  proof cases
    case 1
    then show ?thesis by simp
  next
    case 2
    then show ?thesis by (simp add: capital_lower small_stays)
  next
    case 3
    then show ?thesis by (simp add: capital_lower small_stays)
  qed
qed

lemma map_lower_eq: "map ascii_lower u = map ascii_lower q \<longleftrightarrow> list_all2 same_letter u q"
proof (induction u arbitrary: q)
  case Nil
  then show ?case by auto
next
  case (Cons x xs)
  show ?case by (cases q) (simp_all add: ascii_lower_same_letter Cons.IH)
qed

lemma folded_contains:
  "(\<exists>p r. map ascii_lower t = p @ map ascii_lower q @ r) \<longleftrightarrow> contains_ignoring_case t q"
proof
  assume "\<exists>p r. map ascii_lower t = p @ map ascii_lower q @ r"
  then obtain p r where "map ascii_lower t = p @ map ascii_lower q @ r" by blast
  then have "\<exists>us vs. t = us @ vs \<and> p = map ascii_lower us \<and> map ascii_lower q @ r = map ascii_lower vs"
    by (rule iffD1[OF map_eq_append_conv])
  then obtain p' vs where t: "t = p' @ vs" and vs: "map ascii_lower vs = map ascii_lower q @ r"
    by auto
  from vs have "\<exists>us ws. vs = us @ ws \<and> map ascii_lower q = map ascii_lower us \<and> r = map ascii_lower ws"
    by (rule iffD1[OF map_eq_append_conv])
  then obtain u r' where "vs = u @ r'" and u: "map ascii_lower u = map ascii_lower q"
    by auto
  with t have "t = p' @ u @ r'" by simp
  with u have "\<exists>p u r. t = p @ u @ r \<and> map ascii_lower u = map ascii_lower q" by blast
  then show "contains_ignoring_case t q"
    by (simp add: contains_ignoring_case_def map_lower_eq)
next
  assume "contains_ignoring_case t q"
  then obtain p u r where t: "t = p @ u @ r" and "list_all2 same_letter u q"
    unfolding contains_ignoring_case_def by blast
  then have "map ascii_lower u = map ascii_lower q" by (simp add: map_lower_eq)
  with t have "map ascii_lower t = map ascii_lower p @ map ascii_lower q @ map ascii_lower r" by simp
  then show "\<exists>p r. map ascii_lower t = p @ map ascii_lower q @ r" by blast
qed

lemma folds_ascii_folding: "folds_ascii (map ascii_lower)"
  by (simp add: folds_ascii_def)

text \<open>
  C5, as the code has it. For every search string and every status filter, the visible
  list holds exactly the stories of the hook's collection that the current user has
  written, whose lower-cased title contains the lower-cased search string, and whose
  status is the filter value unless the filter is "all". Lower-casing is the runtime's;
  where it folds ASCII as the language standard says, then for an ASCII search string the
  visible stories with an ASCII title are exactly those whose title contains the search
  string whatever the case of its letters, and with an empty search string and the filter
  "all" the visible list is the list of the user's stories.
\<close>

theorem filteredStories_exactly:
  "set (filteredStories lc user ss q f)
     = {s \<in> set ss. authored_by user s \<and> (\<exists>p r. lc (title s) = p @ lc q @ r)
          \<and> (f = ''all'' \<or> status s = f)}
   \<and> (folds_ascii lc \<longrightarrow> ascii q \<longrightarrow>
        {s \<in> set (filteredStories lc user ss q f). ascii (title s)}
          = {s \<in> set ss. ascii (title s) \<and> authored_by user s
               \<and> contains_ignoring_case (title s) q \<and> (f = ''all'' \<or> status s = f)})
   \<and> (folds_ascii lc \<longrightarrow> filteredStories lc user ss [] ''all'' = userStories user ss)"
proof -
  have e: "includes_str t []" for t by (cases t) simp_all
  have 1: "set (filteredStories lc user ss q f)
     = {s \<in> set ss. authored_by user s \<and> (\<exists>p r. lc (title s) = p @ lc q @ r)
          \<and> (f = ''all'' \<or> status s = f)}"
    by (auto simp: filteredStories_def userStories_def authored_by_def includes_str_iff Let_def
        split: option.splits)
  have 2: "{s \<in> set (filteredStories lc user ss q f). ascii (title s)}
          = {s \<in> set ss. ascii (title s) \<and> authored_by user s
               \<and> contains_ignoring_case (title s) q \<and> (f = ''all'' \<or> status s = f)}"
    if lc: "folds_ascii lc" and q: "ascii q"
  proof -
    have "(\<exists>p r. lc t = p @ lc q @ r) \<longleftrightarrow> contains_ignoring_case t q" if "ascii t" for t
    proof -
      have "lc t = map ascii_lower t" and "lc q = map ascii_lower q"
        using lc q that by (simp_all add: folds_ascii_def)
      then show ?thesis by (simp add: folded_contains)
    qed
    then show ?thesis unfolding 1 by blast
  qed
  have 3: "filteredStories lc user ss [] ''all'' = userStories user ss" if lc: "folds_ascii lc"
  proof -
    have "lc [] = []" using lc by (simp add: folds_ascii_def ascii_def)
    then show ?thesis by (simp add: filteredStories_def e)
  qed
  from 1 2 3 show ?thesis by blast
qed

theorem filteredStories_exactly_witness:
  "folds_ascii (map ascii_lower) \<and> ascii ''RING'' \<and> ascii ''The One Ring''
   \<and> row_of ''s1'' ''The One Ring'' ''u1'' ''draft'' ''t1''
       \<in> set (filteredStories (map ascii_lower) (Some \<lparr> uid = ''u1'' \<rparr>)
            [row_of ''s1'' ''The One Ring'' ''u1'' ''draft'' ''t1'',
             row_of ''s2'' ''Two Towers'' ''u1'' ''draft'' ''t2''] ''RING'' ''draft'')
   \<and> contains_ignoring_case ''The One Ring'' ''RING''
   \<and> filteredStories (map ascii_lower) (Some \<lparr> uid = ''u1'' \<rparr>)
        [row_of ''s1'' ''The One Ring'' ''u1'' ''draft'' ''t1'',
         row_of ''s2'' ''Two Towers'' ''u1'' ''draft'' ''t2''] [] ''all''
      = [row_of ''s1'' ''The One Ring'' ''u1'' ''draft'' ''t1'',
         row_of ''s2'' ''Two Towers'' ''u1'' ''draft'' ''t2'']"
proof -
  let ?r = "row_of ''s1'' ''The One Ring'' ''u1'' ''draft'' ''t1''"
  let ?ss = "[?r, row_of ''s2'' ''Two Towers'' ''u1'' ''draft'' ''t2'']"
  let ?u = "Some \<lparr> uid = ''u1'' \<rparr>"
  note th = filteredStories_exactly[of "map ascii_lower" ?u ?ss "''RING''" "''draft''"]
  have a: "ascii ''RING''" "ascii ''The One Ring''" by (simp_all add: ascii_def)
  have t: "title ?r = ''The One Ring''" by (simp add: row_of_def)
  have m: "?r \<in> set (filteredStories (map ascii_lower) ?u ?ss ''RING'' ''draft'')"
    by (simp add: filteredStories_def userStories_def row_of_def ascii_lower_def ascii_letters_def)
  have pick: "Q r" if "{s \<in> A. P s} = {s \<in> B. Q s}" and "r \<in> A" and "P r"
    for A B :: "story set" and P Q r
    using that by blast
  have eq: "{s \<in> set (filteredStories (map ascii_lower) ?u ?ss ''RING'' ''draft''). ascii (title s)}
          = {s \<in> set ?ss. ascii (title s) \<and> authored_by ?u s
               \<and> contains_ignoring_case (title s) ''RING'' \<and> (''draft'' = ''all'' \<or> status s = ''draft'')}"
    using th folds_ascii_folding a(1) by blast
  have at: "ascii (title ?r)" using a(2) by (simp only: t)
  have "contains_ignoring_case (title ?r) ''RING''"
    using pick[OF eq m at] by blast
  then have c: "contains_ignoring_case ''The One Ring'' ''RING''" by (simp only: t)
  have "filteredStories (map ascii_lower) ?u ?ss [] ''all'' = userStories ?u ?ss"
    using filteredStories_exactly[of "map ascii_lower" ?u ?ss "[]" "''all''"] folds_ascii_folding
    by blast
  then have l: "filteredStories (map ascii_lower) ?u ?ss [] ''all'' = ?ss"
    by (simp add: userStories_def row_of_def)
  from folds_ascii_folding a m c l show ?thesis by blast
qed

text \<open>
  The claim C5 as it was stated fails: a published story of another author whose title
  contains the search string is in the hook's collection and meets both conditions, and
  it is not in the visible list.
\<close>

theorem other_author_not_visible:
  "includes_str (map ascii_lower (title (row_of ''s2'' ''One'' ''u2'' ''published'' ''t1'')))
      (map ascii_lower ''one'')
   \<and> status (row_of ''s2'' ''One'' ''u2'' ''published'' ''t1'') = ''published''
   \<and> filteredStories (map ascii_lower) (Some \<lparr> uid = ''u1'' \<rparr>)
        [row_of ''s2'' ''One'' ''u2'' ''published'' ''t1''] ''one'' ''published'' = []"
  by (simp add: filteredStories_def userStories_def row_of_def ascii_lower_def ascii_letters_def)

text \<open>
  C10. Every story of the visible list has the current user's identifier as its author,
  whatever the hook's collection holds; with no user signed in the visible list is empty.
\<close>

theorem visible_author:
  "(\<forall>s \<in> set (filteredStories lc user ss q f). Some (author_id s) = map_option uid user)
   \<and> filteredStories lc None ss q f = []"
  by (auto simp: filteredStories_def userStories_def split: option.splits)

theorem visible_author_witness:
  "row_of ''s1'' ''One'' ''u1'' ''draft'' ''t1''
     \<in> set (filteredStories (map ascii_lower) (Some \<lparr> uid = ''u1'' \<rparr>)
          [row_of ''s1'' ''One'' ''u1'' ''draft'' ''t1'', row_of ''s2'' ''Two'' ''u2'' ''published'' ''t2'']
          ''on'' ''draft'')
   \<and> author_id (row_of ''s1'' ''One'' ''u1'' ''draft'' ''t1'') = ''u1''
   \<and> ''u1'' = uid \<lparr> uid = ''u1'' \<rparr>"
  using visible_author[of "map ascii_lower" "Some \<lparr> uid = ''u1'' \<rparr>"
      "[row_of ''s1'' ''One'' ''u1'' ''draft'' ''t1'', row_of ''s2'' ''Two'' ''u2'' ''published'' ''t2'']"
      "''on''" "''draft''"]
  by (simp add: filteredStories_def userStories_def row_of_def ascii_lower_def ascii_letters_def)

section \<open>Properties of \<^verbatim>\<open>fetchStories\<close>\<close>

lemma fetchStories_failed:
  assumes "faults (remote w) OpSelectStories = Some e"
  shows "fetchStories w = w\<lparr> loading := False,
            error := Some (error_text e ''Failed to fetch stories''),
            trace := trace w @ fetch_events (remote w) \<rparr>"
  using assms
  by (simp add: fetchStories_def await_def select_stories_def setLoading_def setError_def
      fetch_events_def)

lemma fetchStories_fetched:
  assumes "faults (remote w) OpSelectStories = None"
  shows "fetchStories w = w\<lparr> loading := False,
            stories := map (merge_profile (profiles_answer (remote w))) (published_rows (remote w)),
            trace := trace w @ fetch_events (remote w) \<rparr>"
  using assms
  by (cases "faults (remote w) OpSelectProfiles")
     (simp_all add: fetchStories_def await_def select_stories_def select_profiles_def
        setLoading_def setStories_def consoleWarn_def fetch_events_def published_rows_def
        profiles_answer_def Let_def)

lemma trace_fetchStories: "trace (fetchStories w) = trace w @ fetch_events (remote w)"
  by (cases "faults (remote w) OpSelectStories") (simp_all add: fetchStories_failed fetchStories_fetched)

lemma remote_fetchStories: "remote (fetchStories w) = remote w"
  by (cases "faults (remote w) OpSelectStories") (simp_all add: fetchStories_failed fetchStories_fetched)

lemma find_filter_weaker:
  "(\<And>x. P x \<Longrightarrow> Q x) \<Longrightarrow> find P (filter Q xs) = find P xs"
  by (induction xs) auto

lemma merged_is_snapshot:
  "map (merge_profile (profiles_answer b)) (published_rows b) = remote_snapshot b"
proof (cases "faults b OpSelectProfiles")
  case None
  have "find (\<lambda>p. user_id p = author_id s)
          (filter (\<lambda>p. user_id p \<in> set (map author_id (published_rows b))) (profiles_tbl b))
        = find (\<lambda>p. user_id p = author_id s) (profiles_tbl b)"
    if "s \<in> set (published_rows b)" for s
    using that by (intro find_filter_weaker) auto
  with None show ?thesis
    by (simp add: remote_snapshot_def profiles_answer_def merge_profile_def)
next
  case (Some e)
  then show ?thesis
    by (simp add: remote_snapshot_def profiles_answer_def merge_profile_def)
qed

lemma stories_fetchStories_fetched:
  "faults (remote w) OpSelectStories = None \<Longrightarrow> stories (fetchStories w) = remote_snapshot (remote w)"
  by (simp add: fetchStories_fetched merged_is_snapshot)

lemma fetch_events_shape:
  "\<exists>mid. fetch_events b = SetLoading True # mid @ [SetLoading False]"
  by (auto simp: fetch_events_def split: option.splits)

text \<open>
  C2, as the code has it. Every run of the fetch sets the loading flag first and clears it
  last. When the stories query fails the error message is set and the collection is left
  as it was; when it does not fail the collection is replaced by the remote snapshot and
  the error message is left as it was: the hook never clears it.
\<close>

theorem fetchStories_flags:
  "(\<exists>mid. trace (fetchStories w) = trace w @ SetLoading True # mid @ [SetLoading False])
   \<and> loading (fetchStories w) = False
   \<and> (\<forall>e. faults (remote w) OpSelectStories = Some e \<longrightarrow>
          error (fetchStories w) = Some (error_text e ''Failed to fetch stories'')
          \<and> stories (fetchStories w) = stories w)
   \<and> (faults (remote w) OpSelectStories = None \<longrightarrow>
          error (fetchStories w) = error w
          \<and> stories (fetchStories w) = remote_snapshot (remote w))"
proof (cases "faults (remote w) OpSelectStories")
  case None
  obtain mid where "fetch_events (remote w) = SetLoading True # mid @ [SetLoading False]"
    using fetch_events_shape by blast
  with None show ?thesis
    by (simp add: fetchStories_fetched merged_is_snapshot)
next
  case (Some e)
  obtain mid where "fetch_events (remote w) = SetLoading True # mid @ [SetLoading False]"
    using fetch_events_shape by blast
  with Some show ?thesis
    by (simp add: fetchStories_failed)
qed

theorem fetchStories_flags_witness:
  "faults (remote refetch_fails_world) OpSelectStories = Some (PlainError ''network'')
   \<and> error (fetchStories refetch_fails_world) = Some ''Failed to fetch stories''
   \<and> stories (fetchStories refetch_fails_world) = []
   \<and> loading (fetchStories refetch_fails_world) = False
   \<and> faults (remote joined_world) OpSelectStories = None
   \<and> error (fetchStories joined_world) = None
   \<and> stories (fetchStories joined_world)
       = [(row_of ''s1'' ''One'' ''u1'' ''published'' ''t1'')\<lparr> profiles := Some author_profile \<rparr>]"
proof -
  have f: "faults (remote refetch_fails_world) OpSelectStories = Some (PlainError ''network'')"
    by (simp add: refetch_fails_world_def initial_world_def store_of_def)
  have g: "faults (remote joined_world) OpSelectStories = None"
    by (simp add: joined_world_def initial_world_def store_of_def)
  have s: "remote_snapshot (remote joined_world)
       = [(row_of ''s1'' ''One'' ''u1'' ''published'' ''t1'')\<lparr> profiles := Some author_profile \<rparr>]"
    by (simp add: joined_world_def initial_world_def store_of_def remote_snapshot_def
        published_rows_def columns_only_def row_of_def author_profile_def)
  have i: "stories refetch_fails_world = [] \<and> error joined_world = None"
    by (simp add: refetch_fails_world_def joined_world_def initial_world_def)
  show ?thesis
    using fetchStories_flags[of refetch_fails_world] fetchStories_flags[of joined_world] f g s i
    by (simp add: error_text_def)
qed

text \<open>
  The claim C2 as it was stated fails: a fetch that succeeds does not clear the error
  message of an earlier failure.
\<close>

theorem fetchStories_keeps_error:
  "faults (remote stale_error_world) OpSelectStories = None
   \<and> error (fetchStories stale_error_world) = Some ''Failed to fetch stories''
   \<and> stories (fetchStories stale_error_world) = [row_of ''s1'' ''One'' ''u1'' ''published'' ''t1'']"
  by (simp add: stale_error_world_def initial_world_def store_of_def row_of_def fetchStories_def
      await_def select_stories_def select_profiles_def setLoading_def setStories_def
      columns_only_def merge_profile_def Let_def)

text \<open>
  C7. When the stories query answers, the profiles are asked for in a second call, keyed
  by the author identifiers of the rows just fetched, and each story gets the first
  profile whose \<open>user_id\<close> equals its \<open>author_id\<close>, or none. When the profiles query
  fails, the failure is written to the console and nowhere else: the error message of
  the hook is untouched, the collection is replaced by the fetched rows, and every one of
  them has no profile.
\<close>

theorem profile_join:
  assumes "faults (remote w) OpSelectStories = None"
  shows "(\<exists>rest. trace (fetchStories w)
        = trace w @ [SetLoading True, Remote (SelectStories ''published''),
                     Remote (SelectProfiles (map author_id (published_rows (remote w))))] @ rest)
     \<and> (faults (remote w) OpSelectProfiles = None \<longrightarrow>
          stories (fetchStories w)
            = map (\<lambda>s. s\<lparr> profiles := find (\<lambda>p. user_id p = author_id s) (profiles_tbl (remote w)) \<rparr>)
                (published_rows (remote w)))
     \<and> (\<forall>s \<in> set (stories (fetchStories w)). \<forall>p. profiles s = Some p \<longrightarrow>
          user_id p = author_id s \<and> p \<in> set (profiles_tbl (remote w)))
     \<and> (\<forall>e. faults (remote w) OpSelectProfiles = Some e \<longrightarrow>
          trace (fetchStories w)
            = trace w @ [SetLoading True, Remote (SelectStories ''published''),
                         Remote (SelectProfiles (map author_id (published_rows (remote w)))),
                         ConsoleWarn e, SetStories (published_rows (remote w)), SetLoading False]
          \<and> error (fetchStories w) = error w
          \<and> loading (fetchStories w) = False
          \<and> stories (fetchStories w) = published_rows (remote w)
          \<and> (\<forall>s \<in> set (stories (fetchStories w)). profiles s = None))"
proof -
  let ?b = "remote w"
  have rows_plain: "profiles s = None" if "s \<in> set (published_rows ?b)" for s
    using that by (auto simp: published_rows_def columns_only_def)
  have plain: "map (merge_profile None) (published_rows ?b) = published_rows ?b"
    by (rule map_idI) (simp add: merge_profile_def rows_plain)
  have st: "stories (fetchStories w) = remote_snapshot ?b"
    using assms by (simp add: stories_fetchStories_fetched)
  have a: "\<exists>rest. trace (fetchStories w)
        = trace w @ [SetLoading True, Remote (SelectStories ''published''),
                     Remote (SelectProfiles (map author_id (published_rows ?b)))] @ rest"
    using assms by (simp add: fetchStories_fetched fetch_events_def)
  have b: "faults ?b OpSelectProfiles = None \<longrightarrow>
          stories (fetchStories w)
            = map (\<lambda>s. s\<lparr> profiles := find (\<lambda>p. user_id p = author_id s) (profiles_tbl ?b) \<rparr>)
                (published_rows ?b)"
    using st by (simp add: remote_snapshot_def)
  have c: "\<forall>s \<in> set (stories (fetchStories w)). \<forall>p. profiles s = Some p \<longrightarrow>
          user_id p = author_id s \<and> p \<in> set (profiles_tbl ?b)"
    unfolding st remote_snapshot_def
    by (auto split: option.splits simp: find_Some_iff)
  have d: "\<forall>e. faults ?b OpSelectProfiles = Some e \<longrightarrow>
          trace (fetchStories w)
            = trace w @ [SetLoading True, Remote (SelectStories ''published''),
                         Remote (SelectProfiles (map author_id (published_rows ?b))),
                         ConsoleWarn e, SetStories (published_rows ?b), SetLoading False]
          \<and> error (fetchStories w) = error w
          \<and> loading (fetchStories w) = False
          \<and> stories (fetchStories w) = published_rows ?b
          \<and> (\<forall>s \<in> set (stories (fetchStories w)). profiles s = None)"
    using assms plain rows_plain
    by (auto simp: fetchStories_fetched fetch_events_def profiles_answer_def)
  from a b c d show ?thesis by blast
qed

theorem profile_join_witness:
  "faults (remote joined_world) OpSelectStories = None
   \<and> faults (remote joined_world) OpSelectProfiles = None
   \<and> stories (fetchStories joined_world)
       = [(row_of ''s1'' ''One'' ''u1'' ''published'' ''t1'')\<lparr> profiles := Some author_profile \<rparr>]
   \<and> faults (remote profiles_fail_world) OpSelectStories = None
   \<and> faults (remote profiles_fail_world) OpSelectProfiles = Some (PlainError ''profiles'')
   \<and> stories (fetchStories profiles_fail_world) = [row_of ''s1'' ''One'' ''u1'' ''published'' ''t1'']
   \<and> error (fetchStories profiles_fail_world) = None
   \<and> trace (fetchStories profiles_fail_world)
       = [SetLoading True, Remote (SelectStories ''published''), Remote (SelectProfiles [''u1'']),
          ConsoleWarn (PlainError ''profiles''),
          SetStories [row_of ''s1'' ''One'' ''u1'' ''published'' ''t1''], SetLoading False]"
proof -
  have j: "faults (remote joined_world) OpSelectStories = None"
    and j': "faults (remote joined_world) OpSelectProfiles = None"
    by (simp_all add: joined_world_def initial_world_def store_of_def)
  have f: "faults (remote profiles_fail_world) OpSelectStories = None"
    and f': "faults (remote profiles_fail_world) OpSelectProfiles = Some (PlainError ''profiles'')"
    by (simp_all add: profiles_fail_world_def initial_world_def store_of_def)
  have rj: "published_rows (remote joined_world) = [row_of ''s1'' ''One'' ''u1'' ''published'' ''t1'']"
    and pj: "profiles_tbl (remote joined_world) = [author_profile]"
    by (simp_all add: joined_world_def initial_world_def store_of_def published_rows_def
        columns_only_def row_of_def)
  have rf: "published_rows (remote profiles_fail_world) = [row_of ''s1'' ''One'' ''u1'' ''published'' ''t1'']"
    and ef: "error profiles_fail_world = None" and tf: "trace profiles_fail_world = []"
    by (simp_all add: profiles_fail_world_def initial_world_def store_of_def published_rows_def
        columns_only_def row_of_def)
  have au: "author_id (row_of ''s1'' ''One'' ''u1'' ''published'' ''t1'') = ''u1''"
    and up: "user_id author_profile = ''u1''"
    by (simp_all add: row_of_def author_profile_def)
  have "stories (fetchStories joined_world)
      = map (\<lambda>s. s\<lparr> profiles := find (\<lambda>p. user_id p = author_id s) (profiles_tbl (remote joined_world)) \<rparr>)
          (published_rows (remote joined_world))"
    using profile_join[OF j] j' by blast
  then have sj: "stories (fetchStories joined_world)
       = [(row_of ''s1'' ''One'' ''u1'' ''published'' ''t1'')\<lparr> profiles := Some author_profile \<rparr>]"
    by (simp add: rj pj au up)
  have "trace (fetchStories profiles_fail_world)
            = trace profiles_fail_world @ [SetLoading True, Remote (SelectStories ''published''),
                 Remote (SelectProfiles (map author_id (published_rows (remote profiles_fail_world)))),
                 ConsoleWarn (PlainError ''profiles''),
                 SetStories (published_rows (remote profiles_fail_world)), SetLoading False]
          \<and> error (fetchStories profiles_fail_world) = error profiles_fail_world
          \<and> stories (fetchStories profiles_fail_world) = published_rows (remote profiles_fail_world)"
    using profile_join[OF f] f' by blast
  then have sf: "stories (fetchStories profiles_fail_world) = [row_of ''s1'' ''One'' ''u1'' ''published'' ''t1'']
      \<and> error (fetchStories profiles_fail_world) = None
      \<and> trace (fetchStories profiles_fail_world)
       = [SetLoading True, Remote (SelectStories ''published''), Remote (SelectProfiles [''u1'']),
          ConsoleWarn (PlainError ''profiles''),
          SetStories [row_of ''s1'' ''One'' ''u1'' ''published'' ''t1''], SetLoading False]"
    by (simp add: rf ef tf au)
  from j j' f f' sj sf show ?thesis by blast
qed

section \<open>Properties of the mutations\<close>

lemma remote_deletes_append: "remote_deletes (a @ b) = remote_deletes a @ remote_deletes b"
  by (induction a rule: remote_deletes.induct) simp_all

lemma remote_updates_append: "remote_updates (a @ b) = remote_updates a @ remote_updates b"
  by (induction a rule: remote_updates.induct) simp_all

lemma remote_deletes_fetch: "remote_deletes (fetch_events b) = []"
  by (simp add: fetch_events_def split: option.splits)

lemma remote_updates_fetch: "remote_updates (fetch_events b) = []"
  by (simp add: fetch_events_def split: option.splits)

lemma updateStory_failed:
  assumes "faults (remote w) OpUpdateStory = Some e"
  shows "updateStory i p w =
     (Inl e, w\<lparr> error := Some (error_text e ''Failed to update story''),
                trace := trace w @ [Remote (UpdateStory i p), SetError (error_text e ''Failed to update story'')] \<rparr>)"
  using assms by (simp add: updateStory_def await_def update_story_def setError_def)

lemma updateStory_written:
  assumes "faults (remote w) OpUpdateStory = None"
  shows "updateStory i p w =
     (Inr (), fetchStories (w\<lparr> remote := (remote w)\<lparr> stories_tbl :=
                   map (\<lambda>s. if sid s = i then apply_patch p s else s) (stories_tbl (remote w)) \<rparr>,
                trace := trace w @ [Remote (UpdateStory i p)] \<rparr>))"
  using assms by (simp add: updateStory_def await_def update_story_def)

lemma deleteStory_failed:
  assumes "faults (remote w) OpDeleteStory = Some e"
  shows "deleteStory i w =
     (Inl e, w\<lparr> error := Some (error_text e ''Failed to delete story''),
                trace := trace w @ [Remote (DeleteStory i), SetError (error_text e ''Failed to delete story'')] \<rparr>)"
  using assms by (simp add: deleteStory_def await_def delete_story_def setError_def)

lemma deleteStory_written:
  assumes "faults (remote w) OpDeleteStory = None"
  shows "deleteStory i w =
     (Inr (), fetchStories (w\<lparr> remote := (remote w)\<lparr> stories_tbl :=
                   filter (\<lambda>s. sid s \<noteq> i) (stories_tbl (remote w)) \<rparr>,
                trace := trace w @ [Remote (DeleteStory i)] \<rparr>))"
  using assms by (simp add: deleteStory_def await_def delete_story_def)

lemma createStory_failed:
  assumes "faults (remote w) OpInsertStory = Some e"
  shows "createStory sd w =
     (Inl e, w\<lparr> error := Some (error_text e ''Failed to create story''),
                trace := trace w @ [Remote (InsertStory (insert_of sd)), SetError (error_text e ''Failed to create story'')] \<rparr>)"
  using assms by (simp add: createStory_def await_def insert_story_def setError_def)

lemma stories_fetchStories_failed:
  "faults (remote w) OpSelectStories = Some e \<Longrightarrow>
     stories (fetchStories w) = stories w
     \<and> error (fetchStories w) = Some (error_text e ''Failed to fetch stories'')"
  by (simp add: fetchStories_failed)

lemma createStory_written:
  assumes "faults (remote w) OpInsertStory = None"
  shows "fst (createStory sd w) = Inr (Some (new_row (insert_of sd) (remote w)))"
    and "trace (snd (createStory sd w))
          = trace w @ Remote (InsertStory (insert_of sd)) # tag_calls sd (remote w)
              @ fetch_events (remote (snd (createStory sd w)))"
    and "stories_tbl (remote (snd (createStory sd w)))
          = stories_tbl (remote w) @ [new_row (insert_of sd) (remote w)]"
    and "faults (remote w) OpSelectStories = None \<Longrightarrow>
           stories (snd (createStory sd w)) = remote_snapshot (remote (snd (createStory sd w)))"
    and "faults (remote w) OpSelectStories = Some e \<Longrightarrow>
           stories (snd (createStory sd w)) = stories w
           \<and> error (snd (createStory sd w)) = Some (error_text e ''Failed to fetch stories'')"
  using assms
  by (auto simp: createStory_def await_def insert_story_def insert_story_tags_def
      tag_calls_def new_row_def trace_fetchStories remote_fetchStories
      stories_fetchStories_fetched stories_fetchStories_failed Let_def
      split: option.splits prod.splits)

text \<open>
  C4, as the code has it. A mutation whose remote write succeeds resolves normally and
  runs the fetch after the write (and, for create, after the tag insert). When the
  stories query of that fetch does not fail, the collection equals the remote snapshot
  of the store as the write left it; when it fails, the mutation still resolves, the
  collection is left as it was before the mutation and the error message is that of the
  fetch. Create returns the stored row, a draft with the title and author given.
\<close>

theorem mutations_refetch:
  "(faults (remote w) OpUpdateStory = None \<longrightarrow>
      (case updateStory i p w of (r, w') \<Rightarrow>
         r = Inr ()
         \<and> trace w' = trace w @ Remote (UpdateStory i p) # fetch_events (remote w')
         \<and> (faults (remote w) OpSelectStories = None \<longrightarrow> stories w' = remote_snapshot (remote w'))
         \<and> (\<forall>e. faults (remote w) OpSelectStories = Some e \<longrightarrow>
               stories w' = stories w
               \<and> error w' = Some (error_text e ''Failed to fetch stories''))))
   \<and> (faults (remote w) OpDeleteStory = None \<longrightarrow>
      (case deleteStory i w of (r, w') \<Rightarrow>
         r = Inr ()
         \<and> trace w' = trace w @ Remote (DeleteStory i) # fetch_events (remote w')
         \<and> (faults (remote w) OpSelectStories = None \<longrightarrow> stories w' = remote_snapshot (remote w'))
         \<and> (\<forall>e. faults (remote w) OpSelectStories = Some e \<longrightarrow>
               stories w' = stories w
               \<and> error w' = Some (error_text e ''Failed to fetch stories''))))
   \<and> (faults (remote w) OpInsertStory = None \<longrightarrow>
      (case createStory sd w of (r, w') \<Rightarrow>
         (\<exists>row. r = Inr (Some row) \<and> status row = ''draft'' \<and> title row = sd_title sd
             \<and> author_id row = sd_author_id sd \<and> row \<in> set (stories_tbl (remote w')))
         \<and> trace w' = trace w @ Remote (InsertStory (insert_of sd)) # tag_calls sd (remote w)
                         @ fetch_events (remote w')
         \<and> (faults (remote w) OpSelectStories = None \<longrightarrow> stories w' = remote_snapshot (remote w'))
         \<and> (\<forall>e. faults (remote w) OpSelectStories = Some e \<longrightarrow>
               stories w' = stories w
               \<and> error w' = Some (error_text e ''Failed to fetch stories''))))"
proof -
  have u: "faults (remote w) OpUpdateStory = None \<longrightarrow>
      (case updateStory i p w of (r, w') \<Rightarrow>
         r = Inr ()
         \<and> trace w' = trace w @ Remote (UpdateStory i p) # fetch_events (remote w')
         \<and> (faults (remote w) OpSelectStories = None \<longrightarrow> stories w' = remote_snapshot (remote w'))
         \<and> (\<forall>e. faults (remote w) OpSelectStories = Some e \<longrightarrow>
               stories w' = stories w
               \<and> error w' = Some (error_text e ''Failed to fetch stories'')))"
    by (simp add: updateStory_written trace_fetchStories remote_fetchStories
        stories_fetchStories_fetched stories_fetchStories_failed)
  have d: "faults (remote w) OpDeleteStory = None \<longrightarrow>
      (case deleteStory i w of (r, w') \<Rightarrow>
         r = Inr ()
         \<and> trace w' = trace w @ Remote (DeleteStory i) # fetch_events (remote w')
         \<and> (faults (remote w) OpSelectStories = None \<longrightarrow> stories w' = remote_snapshot (remote w'))
         \<and> (\<forall>e. faults (remote w) OpSelectStories = Some e \<longrightarrow>
               stories w' = stories w
               \<and> error w' = Some (error_text e ''Failed to fetch stories'')))"
    by (simp add: deleteStory_written trace_fetchStories remote_fetchStories
        stories_fetchStories_fetched stories_fetchStories_failed)
  have c: "faults (remote w) OpInsertStory = None \<longrightarrow>
      (case createStory sd w of (r, w') \<Rightarrow>
         (\<exists>row. r = Inr (Some row) \<and> status row = ''draft'' \<and> title row = sd_title sd
             \<and> author_id row = sd_author_id sd \<and> row \<in> set (stories_tbl (remote w')))
         \<and> trace w' = trace w @ Remote (InsertStory (insert_of sd)) # tag_calls sd (remote w)
                         @ fetch_events (remote w')
         \<and> (faults (remote w) OpSelectStories = None \<longrightarrow> stories w' = remote_snapshot (remote w'))
         \<and> (\<forall>e. faults (remote w) OpSelectStories = Some e \<longrightarrow>
               stories w' = stories w
               \<and> error w' = Some (error_text e ''Failed to fetch stories'')))"
  proof
    assume ok: "faults (remote w) OpInsertStory = None"
    obtain r w' where rw: "createStory sd w = (r, w')" by (cases "createStory sd w")
    have "r = Inr (Some (new_row (insert_of sd) (remote w)))"
      using createStory_written(1)[OF ok, of sd] rw by simp
    moreover have "stories_tbl (remote w') = stories_tbl (remote w) @ [new_row (insert_of sd) (remote w)]"
      using createStory_written(3)[OF ok, of sd] rw by simp
    moreover have "trace w' = trace w @ Remote (InsertStory (insert_of sd)) # tag_calls sd (remote w)
                         @ fetch_events (remote w')"
      using createStory_written(2)[OF ok, of sd] rw by simp
    moreover have "faults (remote w) OpSelectStories = None \<longrightarrow> stories w' = remote_snapshot (remote w')"
      using createStory_written(4)[OF ok, of sd] rw by simp
    moreover have "\<forall>e. faults (remote w) OpSelectStories = Some e \<longrightarrow>
               stories w' = stories w
               \<and> error w' = Some (error_text e ''Failed to fetch stories'')"
      using createStory_written(5)[OF ok, of _ sd] rw by simp
    ultimately show "case createStory sd w of (r, w') \<Rightarrow>
         (\<exists>row. r = Inr (Some row) \<and> status row = ''draft'' \<and> title row = sd_title sd
             \<and> author_id row = sd_author_id sd \<and> row \<in> set (stories_tbl (remote w')))
         \<and> trace w' = trace w @ Remote (InsertStory (insert_of sd)) # tag_calls sd (remote w)
                         @ fetch_events (remote w')
         \<and> (faults (remote w) OpSelectStories = None \<longrightarrow> stories w' = remote_snapshot (remote w'))
         \<and> (\<forall>e. faults (remote w) OpSelectStories = Some e \<longrightarrow>
               stories w' = stories w
               \<and> error w' = Some (error_text e ''Failed to fetch stories''))"
      by (simp add: rw new_row_def insert_of_def)
  qed
  from u d c show ?thesis by blast
qed

theorem mutations_refetch_witness:
  "faults (remote joined_world) OpUpdateStory = None
   \<and> faults (remote joined_world) OpDeleteStory = None
   \<and> faults (remote joined_world) OpInsertStory = None
   \<and> faults (remote joined_world) OpSelectStories = None
   \<and> fst (updateStory ''s1'' (no_updates\<lparr> p_title := Some ''Two'' \<rparr>) joined_world) = Inr ()
   \<and> stories (snd (updateStory ''s1'' (no_updates\<lparr> p_title := Some ''Two'' \<rparr>) joined_world))
       = remote_snapshot (remote (snd (updateStory ''s1'' (no_updates\<lparr> p_title := Some ''Two'' \<rparr>) joined_world)))
   \<and> fst (deleteStory ''s1'' joined_world) = Inr ()
   \<and> stories (snd (deleteStory ''s1'' joined_world))
       = remote_snapshot (remote (snd (deleteStory ''s1'' joined_world)))
   \<and> (\<exists>row. fst (createStory tagged_story joined_world) = Inr (Some row) \<and> status row = ''draft'')
   \<and> stories (snd (createStory tagged_story joined_world))
       = remote_snapshot (remote (snd (createStory tagged_story joined_world)))
   \<and> faults (remote stale_collection_world) OpUpdateStory = None
   \<and> faults (remote stale_collection_world) OpDeleteStory = None
   \<and> faults (remote stale_collection_world) OpInsertStory = None
   \<and> faults (remote stale_collection_world) OpSelectStories = Some (PlainError ''network'')
   \<and> stories (snd (updateStory ''s1'' (no_updates\<lparr> p_title := Some ''Two'' \<rparr>) stale_collection_world))
       = [row_of ''s1'' ''One'' ''u1'' ''published'' ''t1'']
   \<and> stories (snd (deleteStory ''s1'' stale_collection_world))
       = [row_of ''s1'' ''One'' ''u1'' ''published'' ''t1'']
   \<and> stories (snd (createStory tagged_story stale_collection_world))
       = [row_of ''s1'' ''One'' ''u1'' ''published'' ''t1'']
   \<and> error (snd (deleteStory ''s1'' stale_collection_world)) = Some ''Failed to fetch stories''"
proof -
  have f: "faults (remote joined_world) OpUpdateStory = None"
    "faults (remote joined_world) OpDeleteStory = None"
    "faults (remote joined_world) OpInsertStory = None"
    "faults (remote joined_world) OpSelectStories = None"
    by (simp_all add: joined_world_def initial_world_def store_of_def)
  have g: "faults (remote stale_collection_world) OpUpdateStory = None"
    "faults (remote stale_collection_world) OpDeleteStory = None"
    "faults (remote stale_collection_world) OpInsertStory = None"
    "faults (remote stale_collection_world) OpSelectStories = Some (PlainError ''network'')"
    by (simp_all add: stale_collection_world_def refetch_fails_world_def initial_world_def store_of_def)
  have s: "stories stale_collection_world = [row_of ''s1'' ''One'' ''u1'' ''published'' ''t1'']"
    by (simp add: stale_collection_world_def)
  note m = mutations_refetch[where w = joined_world and i = "''s1''"
      and p = "no_updates\<lparr> p_title := Some ''Two'' \<rparr>" and sd = tagged_story]
  note n = mutations_refetch[where w = stale_collection_world and i = "''s1''"
      and p = "no_updates\<lparr> p_title := Some ''Two'' \<rparr>" and sd = tagged_story]
  have u: "fst (updateStory ''s1'' (no_updates\<lparr> p_title := Some ''Two'' \<rparr>) joined_world) = Inr ()
     \<and> stories (snd (updateStory ''s1'' (no_updates\<lparr> p_title := Some ''Two'' \<rparr>) joined_world))
       = remote_snapshot (remote (snd (updateStory ''s1'' (no_updates\<lparr> p_title := Some ''Two'' \<rparr>) joined_world)))"
    using m f by (simp add: case_prod_unfold)
  have d: "fst (deleteStory ''s1'' joined_world) = Inr ()
     \<and> stories (snd (deleteStory ''s1'' joined_world))
       = remote_snapshot (remote (snd (deleteStory ''s1'' joined_world)))"
    using m f by (simp add: case_prod_unfold)
  have c: "(\<exists>row. fst (createStory tagged_story joined_world) = Inr (Some row) \<and> status row = ''draft'')
     \<and> stories (snd (createStory tagged_story joined_world))
       = remote_snapshot (remote (snd (createStory tagged_story joined_world)))"
    using m f by (auto simp: case_prod_unfold)
  have u': "stories (snd (updateStory ''s1'' (no_updates\<lparr> p_title := Some ''Two'' \<rparr>) stale_collection_world))
       = [row_of ''s1'' ''One'' ''u1'' ''published'' ''t1'']"
    using n g s by (simp add: case_prod_unfold)
  have d': "stories (snd (deleteStory ''s1'' stale_collection_world))
       = [row_of ''s1'' ''One'' ''u1'' ''published'' ''t1'']
     \<and> error (snd (deleteStory ''s1'' stale_collection_world)) = Some ''Failed to fetch stories''"
    using n g s by (simp add: case_prod_unfold error_text_def)
  have c': "stories (snd (createStory tagged_story stale_collection_world))
       = [row_of ''s1'' ''One'' ''u1'' ''published'' ''t1'']"
    using n g s by (simp add: case_prod_unfold)
  from f g u d c u' d' c' show ?thesis by blast
qed

text \<open>
  The claim C4 as it was stated fails: the update succeeds and resolves, the stories query
  of the fetch that follows fails, and the collection still holds the story under its old
  title, while the store holds it under the new one.
\<close>

theorem update_without_refresh:
  "faults (remote stale_collection_world) OpUpdateStory = None
   \<and> fst (updateStory ''s1'' (no_updates\<lparr> p_title := Some ''Two'' \<rparr>) stale_collection_world) = Inr ()
   \<and> stories (snd (updateStory ''s1'' (no_updates\<lparr> p_title := Some ''Two'' \<rparr>) stale_collection_world))
       = [row_of ''s1'' ''One'' ''u1'' ''published'' ''t1'']
   \<and> remote_snapshot (remote (snd (updateStory ''s1'' (no_updates\<lparr> p_title := Some ''Two'' \<rparr>) stale_collection_world)))
       = [row_of ''s1'' ''Two'' ''u1'' ''published'' ''t1'']
   \<and> stories (snd (updateStory ''s1'' (no_updates\<lparr> p_title := Some ''Two'' \<rparr>) stale_collection_world))
       \<noteq> remote_snapshot (remote (snd (updateStory ''s1'' (no_updates\<lparr> p_title := Some ''Two'' \<rparr>) stale_collection_world)))"
  by (simp add: stale_collection_world_def refetch_fails_world_def initial_world_def store_of_def
      row_of_def updateStory_def await_def update_story_def fetchStories_def select_stories_def
      setLoading_def setError_def no_updates_def apply_patch_def remote_snapshot_def
      published_rows_def columns_only_def)

text \<open>
  The failure of a checked write is recorded and thrown. The failure of the tag insert of
  \<^verbatim>\<open>createStory\<close> is neither (C3): the story insert succeeds, the tag insert fails, and
  \<^verbatim>\<open>createStory\<close> returns the story, leaves the error message empty and the tag unstored.
\<close>

theorem createStory_tag_failure_silent:
  "faults (remote tag_fault_world) OpInsertStoryTags = Some (PlainError ''insert into story_tags failed'')
   \<and> fst (createStory tagged_story tag_fault_world)
       = Inr (Some (new_row (insert_of tagged_story) (remote tag_fault_world)))
   \<and> error (snd (createStory tagged_story tag_fault_world)) = None
   \<and> story_tags_tbl (remote (snd (createStory tagged_story tag_fault_world))) = []
   \<and> trace (snd (createStory tagged_story tag_fault_world))
       = [Remote (InsertStory (insert_of tagged_story)),
          Remote (InsertStoryTags [(''s9'', ''magic'')]),
          SetLoading True, Remote (SelectStories ''published''), Remote (SelectProfiles []),
          SetStories [], SetLoading False]"
  by (simp add: tag_fault_world_def tagged_story_def initial_world_def store_of_def
      createStory_def await_def insert_story_def insert_story_tags_def new_row_def insert_of_def
      fetchStories_def select_stories_def select_profiles_def setLoading_def setStories_def
      columns_only_def Let_def)

section \<open>Properties of the view's actions\<close>

lemma remote_updates_updateStory:
  "remote_updates (trace (snd (updateStory i p w))) = remote_updates (trace w) @ [(i, p)]"
  by (cases "faults (remote w) OpUpdateStory")
     (simp_all add: updateStory_failed updateStory_written trace_fetchStories
        remote_updates_append remote_updates_fetch)

lemma remote_deletes_deleteStory:
  "remote_deletes (trace (snd (deleteStory i w))) = remote_deletes (trace w) @ [i]"
  by (cases "faults (remote w) OpDeleteStory")
     (simp_all add: deleteStory_failed deleteStory_written trace_fetchStories
        remote_deletes_append remote_deletes_fetch)

text \<open>
  C6. For every story and every current status, \<^verbatim>\<open>toggleStatus\<close> asks for exactly one
  remote update, of that story, setting the status and nothing else: to "draft" when the
  current status is "published", to "published" for every other current status. The
  status it asks for is never a third value.
\<close>

theorem toggleStatus_request:
  "remote_updates (trace (toggleStatus i currentStatus w))
     = remote_updates (trace w)
       @ [(i, no_updates\<lparr> p_status := Some (if currentStatus = ''published'' then ''draft'' else ''published'') \<rparr>)]
   \<and> (newStatus currentStatus = ''draft'' \<or> newStatus currentStatus = ''published'')"
proof -
  let ?p = "no_updates\<lparr> p_status := Some (newStatus currentStatus) \<rparr>"
  obtain r w1 where rw: "updateStory i ?p w = (r, w1)" by (cases "updateStory i ?p w")
  have "remote_updates (trace w1) = remote_updates (trace w) @ [(i, ?p)]"
    using remote_updates_updateStory[of i ?p w] rw by simp
  then have "remote_updates (trace (toggleStatus i currentStatus w)) = remote_updates (trace w) @ [(i, ?p)]"
    by (cases r) (simp_all add: toggleStatus_def rw toast_success_def toast_error_def
        remote_updates_append)
  then show ?thesis by (simp add: newStatus_def)
qed

theorem toggleStatus_request_witness:
  "remote_updates (trace (toggleStatus ''s1'' ''archived'' joined_world))
     = [(''s1'', no_updates\<lparr> p_status := Some ''published'' \<rparr>)]
   \<and> remote_updates (trace (toggleStatus ''s1'' ''draft'' joined_world))
     = [(''s1'', no_updates\<lparr> p_status := Some ''published'' \<rparr>)]
   \<and> remote_updates (trace (toggleStatus ''s1'' ''published'' joined_world))
     = [(''s1'', no_updates\<lparr> p_status := Some ''draft'' \<rparr>)]"
proof -
  have t: "trace joined_world = []" by (simp add: joined_world_def initial_world_def)
  show ?thesis
    using toggleStatus_request[of "''s1''" "''archived''" joined_world]
      toggleStatus_request[of "''s1''" "''draft''" joined_world]
      toggleStatus_request[of "''s1''" "''published''" joined_world]
    by (simp add: t)
qed

lemma run_append: "run (es @ es') vw = run es' (run es vw)"
  by (induction es arbitrary: vw) simp_all

lemma run_no_confirm:
  "Confirm \<notin> set es \<Longrightarrow> snd (run es (v, w)) = w"
proof (induction es arbitrary: v)
  case Nil
  then show ?case by simp
next
  case (Cons e es)
  then show ?case by (cases e) simp_all
qed

lemma confirm_selected:
  assumes "storyToDelete v = Some i" and "i \<noteq> []"
  shows "remote_deletes (trace (snd (confirmDelete (v, w)))) = remote_deletes (trace w) @ [i]"
    and "storyToDelete (fst (confirmDelete (v, w))) = None"
proof -
  obtain r w1 where rw: "deleteStory i w = (r, w1)" by (cases "deleteStory i w")
  have d: "remote_deletes (trace w1) = remote_deletes (trace w) @ [i]"
    using remote_deletes_deleteStory[of i w] rw by simp
  show "remote_deletes (trace (snd (confirmDelete (v, w)))) = remote_deletes (trace w) @ [i]"
    using assms d
    by (cases r) (simp_all add: confirmDelete_def rw toast_success_def toast_error_def
        remote_deletes_append)
  show "storyToDelete (fst (confirmDelete (v, w))) = None"
    using assms by (simp add: confirmDelete_def rw)
qed

lemma confirm_nothing_selected:
  "storyToDelete v = None \<Longrightarrow> confirmDelete (v, w) = (v, w)"
  by (simp add: confirmDelete_def)

text \<open>
  C9. In the delete flow over \<open>(deleteDialogOpen, storyToDelete)\<close>: a sequence of
  delete-clicks and cancels with no confirm in it leaves the hook and the store
  untouched, so no remote delete is made; a cancel makes no remote action; after any
  sequence of events, a delete-click on a story followed by a confirm makes exactly one
  remote delete, of that story, and a second confirm right after makes no further one.
  The story is one of the store's, whose identifiers the store assigns and which are
  never the empty string.
\<close>

theorem delete_flow:
  "(Confirm \<notin> set es \<longrightarrow> snd (run es (v, w)) = w)
   \<and> snd (step Cancel (v, w)) = w
   \<and> (i \<noteq> [] \<longrightarrow>
        remote_deletes (trace (snd (run (es @ [DeleteClick i, Confirm]) (v, w))))
          = remote_deletes (trace (snd (run es (v, w)))) @ [i]
        \<and> remote_deletes (trace (snd (run (es @ [DeleteClick i, Confirm, Confirm]) (v, w))))
          = remote_deletes (trace (snd (run es (v, w)))) @ [i])"
proof -
  obtain v1 w1 where s1: "run es (v, w) = (v1, w1)" by (cases "run es (v, w)")
  let ?v2 = "handleDeleteClick i v1"
  have sel: "storyToDelete ?v2 = Some i" by (simp add: handleDeleteClick_def)
  obtain v3 w3 where s3: "confirmDelete (?v2, w1) = (v3, w3)" by (cases "confirmDelete (?v2, w1)")
  have once: "i \<noteq> [] \<Longrightarrow> remote_deletes (trace w3) = remote_deletes (trace w1) @ [i]"
    using confirm_selected(1)[OF sel, of w1] s3 by simp
  have cleared: "i \<noteq> [] \<Longrightarrow> storyToDelete v3 = None"
    using confirm_selected(2)[OF sel, of w1] s3 by simp
  have again: "i \<noteq> [] \<Longrightarrow> confirmDelete (v3, w3) = (v3, w3)"
    using cleared by (simp add: confirm_nothing_selected)
  have a: "Confirm \<notin> set es \<longrightarrow> snd (run es (v, w)) = w"
    by (simp add: run_no_confirm)
  have b: "snd (step Cancel (v, w)) = w" by simp
  have c: "i \<noteq> [] \<longrightarrow>
        remote_deletes (trace (snd (run (es @ [DeleteClick i, Confirm]) (v, w))))
          = remote_deletes (trace (snd (run es (v, w)))) @ [i]
        \<and> remote_deletes (trace (snd (run (es @ [DeleteClick i, Confirm, Confirm]) (v, w))))
          = remote_deletes (trace (snd (run es (v, w)))) @ [i]"
    using once again by (simp add: run_append s1 s3)
  from a b c show ?thesis by blast
qed

theorem delete_flow_witness:
  "Confirm \<notin> set [DeleteClick ''s1'', DeleteClick ''s2'', Cancel]
   \<and> snd (run [DeleteClick ''s1'', DeleteClick ''s2'', Cancel] (initial_view, joined_world)) = joined_world
   \<and> ''s2'' \<noteq> []
   \<and> remote_deletes (trace (snd (run [DeleteClick ''s1'', DeleteClick ''s2'', Confirm]
         (initial_view, joined_world)))) = [''s2'']"
proof -
  have t: "trace joined_world = []" by (simp add: joined_world_def initial_world_def)
  have n: "Confirm \<notin> set [DeleteClick ''s1'', DeleteClick ''s2'', Cancel]" by simp
  have a: "snd (run [DeleteClick ''s1'', DeleteClick ''s2'', Cancel] (initial_view, joined_world)) = joined_world"
    using delete_flow[of "[DeleteClick ''s1'', DeleteClick ''s2'', Cancel]" initial_view joined_world "''s2''"] n
    by blast
  have "remote_deletes (trace (snd (run ([DeleteClick ''s1''] @ [DeleteClick ''s2'', Confirm]) (initial_view, joined_world))))
      = remote_deletes (trace (snd (run [DeleteClick ''s1''] (initial_view, joined_world)))) @ [''s2'']"
    using delete_flow[of "[DeleteClick ''s1'']" initial_view joined_world "''s2''"] by simp
  then have b: "remote_deletes (trace (snd (run [DeleteClick ''s1'', DeleteClick ''s2'', Confirm]
         (initial_view, joined_world)))) = [''s2'']"
    by (simp add: t)
  from n a b show ?thesis by simp
qed

section \<open>Mounting the view\<close>

text \<open>
  C1 does not hold of the code. The store holds one draft of user \<open>u1\<close>. Mounting the view
  runs the hook's own fetch, which asks for published stories only, and then throws,
  because the hook returns no \<^verbatim>\<open>fetchUserStories\<close>; the collection holds no draft and the
  visible list of \<open>u1\<close> is empty.
\<close>

theorem mount_misses_drafts:
  "stories_tbl (remote draft_only_world) = [row_of ''s1'' ''My draft'' ''u1'' ''draft'' ''t1'']
   \<and> fst (ManageStories_mount draft_only_world) = Inl (ErrorInstance ''fetchUserStories is not a function'')
   \<and> stories (snd (ManageStories_mount draft_only_world)) = []
   \<and> trace (snd (ManageStories_mount draft_only_world))
       = [SetLoading True, Remote (SelectStories ''published''), Remote (SelectProfiles []),
          SetStories [], SetLoading False]
   \<and> filteredStories lc (Some \<lparr> uid = ''u1'' \<rparr>) (stories (snd (ManageStories_mount draft_only_world))) [] ''all'' = []"
  by (simp add: draft_only_world_def initial_world_def store_of_def row_of_def
      ManageStories_mount_def useStories_operations_def
      fetchStories_def await_def select_stories_def select_profiles_def setLoading_def setStories_def
      columns_only_def filteredStories_def userStories_def Let_def)

end
